theory Spec2Isabelle
  imports Main
begin

section \<open>The Go standard library functions that gomodguard calls\<close>

text \<open>
  Go strings and byte slices are sequences of bytes; both are modelled as \<^typ>\<open>string\<close>.
  An \<open>error\<close> value is modelled by the text that its \<open>Error()\<close> method returns.

  The functions of the standard library and of \<open>golang.org/x/mod/modfile\<close> that the
  package calls and that are not string manipulation on ASCII text are parameters of the
  model: the file system, the two parsers, and the Unicode tables that
  \<open>strings.ToLower\<close> and \<open>strings.EqualFold\<close> consult once a string holds a byte
  outside ASCII.
\<close>

record token_Position =
  Filename :: string
  Offset :: int
  Line :: int
  Column :: int

text \<open>
  One element of \<open>file.Imports\<close>. Only two things are read from an \<open>*ast.ImportSpec\<close>:
  the literal \<open>Path.Value\<close> (quotes included), and \<open>Pos()\<close>, which is handed to
  \<open>fileSet.Position\<close> at once; \<open>Pos\<close> holds that resolved position.
\<close>

record ast_ImportSpec =
  Path_Value :: string
  Pos :: token_Position

text \<open>One element of \<open>modfile.File.Require\<close>.\<close>

record modfile_Require =
  Mod_Path :: string
  Mod_Version :: string
  Indirect :: bool

record modfile_File =
  Require :: "modfile_Require list"

record stdlib =
  Map_unicode_ToLower :: "string \<Rightarrow> string"
  EqualFold_unicode :: "string \<Rightarrow> string \<Rightarrow> bool"
  ioutil_ReadFile :: "string \<Rightarrow> string \<times> string option"
  parser_ParseFile :: "string \<Rightarrow> string \<Rightarrow> string + ast_ImportSpec list"
  modfile_Parse :: "string \<Rightarrow> string \<Rightarrow> string + modfile_File"

text \<open>
  \<open>ioutil_ReadFile X name\<close> is the pair \<open>(data, err)\<close> that \<open>ioutil.ReadFile\<close> returns
  (\<open>None\<close> for a nil error; the data is \<open>nil\<close>, here the empty list, when the file cannot
  be opened). \<open>parser_ParseFile X name data\<close> is \<open>Inl err\<close> when \<open>parser.ParseFile\<close>
  returns an error, and otherwise \<open>Inr\<close> of the imports of the parsed file.
\<close>

definition isASCII :: "string \<Rightarrow> bool" where
  "isASCII s = list_all (\<lambda>c. (of_char c :: nat) < 128) s"

definition lowerByte :: "char \<Rightarrow> char" where
  "lowerByte c =
     (if 65 \<le> (of_char c :: nat) \<and> (of_char c :: nat) \<le> 90
      then char_of ((of_char c :: nat) + 32) else c)"

text \<open>
  \<open>strings.ToLower\<close>: an ASCII-only string is lower-cased byte by byte (\<open>'A'..'Z'\<close> plus
  \<open>'a' - 'A'\<close>); any other string goes through \<open>Map(unicode.ToLower, s)\<close>.
\<close>

definition ToLower :: "stdlib \<Rightarrow> string \<Rightarrow> string" where
  "ToLower X s = (if isASCII s then map lowerByte s else Map_unicode_ToLower X s)"

text \<open>\<open>strings.HasPrefix\<close>: \<open>len(s) >= len(prefix) && s[0:len(prefix)] == prefix\<close>.\<close>

definition HasPrefix :: "string \<Rightarrow> string \<Rightarrow> bool" where
  "HasPrefix s pre = (length pre \<le> length s \<and> take (length pre) s = pre)"

text \<open>
  \<open>strings.EqualFold\<close> on ASCII text: equal bytes match; otherwise the smaller byte
  must be an upper-case letter and the larger one its lower-case form. When the loop
  ends because one string is exhausted, both must be.
\<close>

fun EqualFold_ascii :: "string \<Rightarrow> string \<Rightarrow> bool" where
  "EqualFold_ascii (sr # s) (tr # t) =
     (if tr = sr then EqualFold_ascii s t
      else
        (let lo = (if (of_char tr :: nat) < of_char sr then tr else sr);
             hi = (if (of_char tr :: nat) < of_char sr then sr else tr)
         in if 65 \<le> (of_char lo :: nat) \<and> (of_char lo :: nat) \<le> 90 \<and>
               (of_char hi :: nat) = of_char lo + 32
            then EqualFold_ascii s t else False))"
| "EqualFold_ascii s t = (s = t)"

definition EqualFold :: "stdlib \<Rightarrow> string \<Rightarrow> string \<Rightarrow> bool" where
  "EqualFold X s t =
     (if isASCII s \<and> isASCII t then EqualFold_ascii s t else EqualFold_unicode X s t)"

text \<open>
  \<open>strings.Trim(s, cutset)\<close> for a cutset of ASCII bytes: all leading and all trailing
  bytes that occur in the cutset are removed.
\<close>

definition Trim :: "string \<Rightarrow> string \<Rightarrow> string" where
  "Trim s cutset =
     rev (dropWhile (\<lambda>c. c \<in> set cutset) (rev (dropWhile (\<lambda>c. c \<in> set cutset) s)))"

section \<open>Configuration and replacement rules\<close>

record Replacement =
  Modules :: "string list"
  Replacement :: string
  Reason :: string

text \<open>\<open>Replacement.String\<close>: the format \<open>"`%s` should be used instead. reason: %s"\<close>.\<close>

definition Replacement_String :: "Replacement \<Rightarrow> string" where
  "Replacement_String r =
     ''`'' @ Replacement r @ ''` should be used instead. reason: '' @ Reason r"

text \<open>\<open>Replacement.HasReplacement\<close>: the loop over \<open>r.Modules\<close>, on the modules left.\<close>

fun HasReplacement_loop :: "stdlib \<Rightarrow> string list \<Rightarrow> string \<Rightarrow> bool" where
  "HasReplacement_loop X [] pkg = False"
| "HasReplacement_loop X (m # ms) pkg =
     (if HasPrefix (ToLower X pkg) (ToLower X m) then True
      else HasReplacement_loop X ms pkg)"

definition HasReplacement :: "stdlib \<Rightarrow> Replacement \<Rightarrow> string \<Rightarrow> bool" where
  "HasReplacement X r pkg = HasReplacement_loop X (Modules r) pkg"

text \<open>
  \<open>Replacements.Get\<close>: the pointer \<open>&r[i]\<close> is modelled by the rule it points to,
  \<open>nil\<close> by \<open>None\<close>.
\<close>

fun Get :: "stdlib \<Rightarrow> Replacement list \<Rightarrow> string \<Rightarrow> Replacement option" where
  "Get X [] pkg = None"
| "Get X (r # rs) pkg = (if HasReplacement X r pkg then Some r else Get X rs pkg)"

record Allow =
  Allow_Modules :: "string list"
  Allow_Domains :: "string list"

record Configuration =
  Allow :: Allow
  Replacements :: "Replacement list"

section \<open>The processor\<close>

record Result =
  FileName :: string
  LineNumber :: int
  Position :: token_Position
  Result_Reason :: string

text \<open>
  The \<open>Processor\<close> struct. The \<open>logger\<close> field is left out: it is set once in
  \<open>NewProcessor\<close> and only written to, and what is logged is not part of the model.
\<close>

record Processor =
  config :: Configuration
  modfile :: modfile_File
  blockedModules :: "string list"
  result :: "Result list"

text \<open>
  The calls that reach outside the program are recorded, in the order they are made, so
  that a statement can say that a file was or was not read or parsed.
\<close>

datatype io_event = ReadFile string | ParseFile string string | ParseModfile string string

definition blockedReason :: "string \<Rightarrow> string" where
  "blockedReason pkg =
     ''import of package `'' @ pkg @
     ''` is blocked because the module is not in the allowed modules list.''"

definition goModFile :: string where
  "goModFile = ''go.mod''"

text \<open>The zero value of \<open>token.Position\<close>, for a \<open>Result\<close> built without the field.\<close>

definition no_Position :: token_Position where
  "no_Position = \<lparr>Filename = [], Offset = 0, Line = 0, Column = 0\<rparr>"

subsection \<open>Which modules are blocked\<close>

fun isAllowedModuleDomain_loop :: "stdlib \<Rightarrow> string list \<Rightarrow> string \<Rightarrow> bool" where
  "isAllowedModuleDomain_loop X [] module = False"
| "isAllowedModuleDomain_loop X (d # domains) module =
     (if HasPrefix (ToLower X module) (ToLower X d) then True
      else isAllowedModuleDomain_loop X domains module)"

definition isAllowedModuleDomain :: "stdlib \<Rightarrow> Processor \<Rightarrow> string \<Rightarrow> bool" where
  "isAllowedModuleDomain X p module =
     isAllowedModuleDomain_loop X (Allow_Domains (Allow (config p))) module"

fun isAllowedModule_loop :: "stdlib \<Rightarrow> string list \<Rightarrow> string \<Rightarrow> bool" where
  "isAllowedModule_loop X [] module = False"
| "isAllowedModule_loop X (m # modules) module =
     (if EqualFold X module m then True else isAllowedModule_loop X modules module)"

definition isAllowedModule :: "stdlib \<Rightarrow> Processor \<Rightarrow> string \<Rightarrow> bool" where
  "isAllowedModule X p module =
     isAllowedModule_loop X (Allow_Modules (Allow (config p))) module"

text \<open>
  The loop of \<open>setBlockedModules\<close> over the requirements left, with the slice
  \<open>blockedModules\<close> built so far.
\<close>

fun setBlockedModules_loop ::
  "stdlib \<Rightarrow> Processor \<Rightarrow> modfile_Require list \<Rightarrow> string list \<Rightarrow> string list" where
  "setBlockedModules_loop X p [] blocked = blocked"
| "setBlockedModules_loop X p (r # require) blocked =
     (if \<not> Indirect r then
        (if isAllowedModuleDomain X p (Mod_Path r) then setBlockedModules_loop X p require blocked
         else if isAllowedModule X p (Mod_Path r) then setBlockedModules_loop X p require blocked
         else setBlockedModules_loop X p require (blocked @ [Mod_Path r]))
      else setBlockedModules_loop X p require blocked)"

definition setBlockedModules :: "stdlib \<Rightarrow> Processor \<Rightarrow> Processor" where
  "setBlockedModules X p =
     p\<lparr>blockedModules := setBlockedModules_loop X p (Require (modfile p)) []\<rparr>"

fun isBlockedPackage_loop :: "stdlib \<Rightarrow> string list \<Rightarrow> string \<Rightarrow> bool" where
  "isBlockedPackage_loop X [] pkg = False"
| "isBlockedPackage_loop X (b # blocked) pkg =
     (if HasPrefix (ToLower X pkg) (ToLower X b) then True
      else isBlockedPackage_loop X blocked pkg)"

definition isBlockedPackage :: "stdlib \<Rightarrow> Processor \<Rightarrow> string \<Rightarrow> bool" where
  "isBlockedPackage X p pkg = isBlockedPackage_loop X (blockedModules p) pkg"

subsection \<open>Construction\<close>

text \<open>
  \<open>NewProcessor\<close> returns \<open>(nil, err)\<close> or \<open>(p, nil)\<close>: \<open>Inl\<close> holds the text
  \<open>errMsg\<close> that is given to \<open>fmt.Errorf\<close>, \<open>Inr\<close> the processor. The second
  component is the record of outside calls, extended.
\<close>

definition NewProcessor ::
  "stdlib \<Rightarrow> Configuration \<Rightarrow> io_event list \<Rightarrow> (string + Processor) \<times> io_event list" where
  "NewProcessor X cfg io =
     (case ioutil_ReadFile X goModFile of
        (moddata, Some err) \<Rightarrow>
          (Inl (''unable to read go.mod file: '' @ err), io @ [ReadFile goModFile])
      | (moddata, None) \<Rightarrow>
          (case modfile_Parse X goModFile moddata of
             Inl err \<Rightarrow>
               (Inl (''unable to parse go.mod file: '' @ err),
                io @ [ReadFile goModFile, ParseModfile goModFile moddata])
           | Inr mfile \<Rightarrow>
               (Inr (setBlockedModules X
                      \<lparr>config = cfg, modfile = mfile, blockedModules = [], result = []\<rparr>),
                io @ [ReadFile goModFile, ParseModfile goModFile moddata])))"

subsection \<open>Scanning files\<close>

definition addError :: "token_Position \<Rightarrow> string \<Rightarrow> Processor \<Rightarrow> Processor" where
  "addError position reason p =
     p\<lparr>result := result p @
        [\<lparr>FileName = Filename position, LineNumber = Line position,
          Position = position, Result_Reason = reason\<rparr>]\<rparr>"

text \<open>The loop of \<open>process\<close> over the imports left.\<close>

fun process_loop :: "stdlib \<Rightarrow> ast_ImportSpec list \<Rightarrow> Processor \<Rightarrow> Processor" where
  "process_loop X [] p = p"
| "process_loop X (imp # imports) p =
     (let pkg = Trim (Path_Value imp) [CHR 0x22] in
      if isBlockedPackage X p pkg then
        (let reason = blockedReason pkg;
             replacement = Get X (Replacements (config p)) pkg;
             reason = (case replacement of
                         Some r \<Rightarrow> reason @ '' '' @ Replacement_String r
                       | None \<Rightarrow> reason)
         in process_loop X imports (addError (Pos imp) reason p))
      else process_loop X imports p)"

definition process ::
  "stdlib \<Rightarrow> string \<Rightarrow> string \<Rightarrow> Processor \<times> io_event list \<Rightarrow> Processor \<times> io_event list" where
  "process X filename data st =
     (case st of (p, io) \<Rightarrow>
        (case parser_ParseFile X filename data of
           Inl err \<Rightarrow>
             (p\<lparr>result := result p @
                 [\<lparr>FileName = filename, LineNumber = 0, Position = no_Position,
                   Result_Reason =
                     ''invalid syntax, file cannot be linted ('' @ err @ '')''\<rparr>]\<rparr>,
              io @ [ParseFile filename data])
         | Inr imports \<Rightarrow> (process_loop X imports p, io @ [ParseFile filename data])))"

text \<open>The loop of \<open>ProcessFiles\<close> over the file names left.\<close>

fun ProcessFiles_loop ::
  "stdlib \<Rightarrow> string list \<Rightarrow> Processor \<times> io_event list \<Rightarrow> Processor \<times> io_event list" where
  "ProcessFiles_loop X [] st = st"
| "ProcessFiles_loop X (filename # filenames) st =
     (case st of (p, io) \<Rightarrow>
        (case ioutil_ReadFile X filename of (data, err) \<Rightarrow>
           (let p1 = (case err of
                        Some e \<Rightarrow>
                          p\<lparr>result := result p @
                            [\<lparr>FileName = filename, LineNumber = 0, Position = no_Position,
                              Result_Reason =
                                ''unable to read file, file cannot be linted ('' @ e @ '')''\<rparr>]\<rparr>
                      | None \<Rightarrow> p)
            in ProcessFiles_loop X filenames
                 (process X filename data (p1, io @ [ReadFile filename])))))"

text \<open>
  \<open>ProcessFiles\<close> returns the slice \<open>p.result\<close>; the second component is the processor
  and the record of outside calls after the call.
\<close>

definition ProcessFiles ::
  "stdlib \<Rightarrow> string list \<Rightarrow> Processor \<times> io_event list
     \<Rightarrow> Result list \<times> (Processor \<times> io_event list)" where
  "ProcessFiles X filenames st =
     (case st of (p, io) \<Rightarrow>
        if length (blockedModules p) = 0 then (result p, (p, io))
        else (case ProcessFiles_loop X filenames (p, io) of
                (p', io') \<Rightarrow> (result p', (p', io'))))"

section \<open>What one import and one file contribute\<close>

text \<open>
  The results that the import loop appends for a single import, and the results and the
  outside calls that one round of the file loop makes for a single file, each read off
  the functions above, started on an empty result slice.
\<close>

definition importResults :: "stdlib \<Rightarrow> Processor \<Rightarrow> ast_ImportSpec \<Rightarrow> Result list" where
  "importResults X p imp = result (process_loop X [imp] (p\<lparr>result := []\<rparr>))"

definition fileResults :: "stdlib \<Rightarrow> Processor \<Rightarrow> string \<Rightarrow> Result list" where
  "fileResults X p filename =
     result (fst (ProcessFiles_loop X [filename] (p\<lparr>result := []\<rparr>, [])))"

definition fileEvents :: "stdlib \<Rightarrow> Processor \<Rightarrow> string \<Rightarrow> io_event list" where
  "fileEvents X p filename = snd (ProcessFiles_loop X [filename] (p\<lparr>result := []\<rparr>, []))"

text \<open>
  The processors a program can hold: the fields are unexported, so a processor comes
  from \<open>NewProcessor\<close> and changes only through \<open>ProcessFiles\<close>.
\<close>

inductive reachable :: "Processor \<Rightarrow> bool" where
  new: "NewProcessor X cfg io = (Inr p, io') \<Longrightarrow> reachable p"
| scan: "reachable p \<Longrightarrow> ProcessFiles X filenames (p, io) = (rs, (p', io')) \<Longrightarrow> reachable p'"

section \<open>A small project, for concrete runs\<close>

definition ex_gomod :: modfile_File where
  "ex_gomod = \<lparr>Require =
     [\<lparr>Mod_Path = ''github.com/evil/pkg'', Mod_Version = ''v1.0.0'', Indirect = False\<rparr>,
      \<lparr>Mod_Path = ''github.com/OK/pkg'', Mod_Version = ''v1.2.0'', Indirect = False\<rparr>,
      \<lparr>Mod_Path = ''github.com/indirect/dep'', Mod_Version = ''v0.1.0'', Indirect = True\<rparr>,
      \<lparr>Mod_Path = ''github.com/Exact/Module'', Mod_Version = ''v2.0.0'', Indirect = False\<rparr>,
      \<lparr>Mod_Path = ''github.com/bad/lib'', Mod_Version = ''v0.3.0'', Indirect = False\<rparr>]\<rparr>"

definition ex_rule1 :: Replacement where
  "ex_rule1 = \<lparr>Modules = [''github.com/evil/pkg''], Replacement = ''github.com/good/pkg'',
               Reason = ''unmaintained''\<rparr>"

definition ex_rule2 :: Replacement where
  "ex_rule2 = \<lparr>Modules = [''github.com/other'', ''github.com/EVIL''],
               Replacement = ''github.com/second/pkg'', Reason = ''second rule''\<rparr>"

definition ex_config :: Configuration where
  "ex_config =
     \<lparr>Allow = \<lparr>Allow_Modules = [''github.com/exact/module''], Allow_Domains = [''github.com/ok'']\<rparr>,
      Replacements = [ex_rule1, ex_rule2]\<rparr>"

definition ex_imports :: "ast_ImportSpec list" where
  "ex_imports =
     [\<lparr>Path_Value = [CHR 0x22] @ ''fmt'' @ [CHR 0x22],
       Pos = \<lparr>Filename = ''a.go'', Offset = 20, Line = 4, Column = 2\<rparr>\<rparr>,
      \<lparr>Path_Value = [CHR 0x22] @ ''github.com/evil/pkg/sub'' @ [CHR 0x22],
       Pos = \<lparr>Filename = ''a.go'', Offset = 27, Line = 5, Column = 2\<rparr>\<rparr>,
      \<lparr>Path_Value = [CHR 0x22] @ ''github.com/bad/lib'' @ [CHR 0x22],
       Pos = \<lparr>Filename = ''a.go'', Offset = 54, Line = 6, Column = 2\<rparr>\<rparr>]"

text \<open>
  The file system holds \<open>go.mod\<close>, \<open>a.go\<close> (three imports) and \<open>bad.go\<close> (not Go);
  any other file cannot be opened. The parser rejects every source but that of
  \<open>a.go\<close>, the empty source too, as Go's parser does: it expects a package clause.
\<close>

definition ex_stdlib :: stdlib where
  "ex_stdlib =
     \<lparr>Map_unicode_ToLower = (\<lambda>s. s),
      EqualFold_unicode = (\<lambda>s t. s = t),
      ioutil_ReadFile = (\<lambda>name.
        if name = ''go.mod'' then (''module example'', None)
        else if name = ''a.go'' then (''package a'', None)
        else if name = ''bad.go'' then (''pakage b'', None)
        else ([], Some (''open '' @ name @ '': no such file or directory''))),
      parser_ParseFile = (\<lambda>name data.
        if data = ''package a'' then Inr ex_imports
        else Inl (name @ '':1:1: expected package'')),
      modfile_Parse = (\<lambda>name data. Inr ex_gomod)\<rparr>"

definition ex_processor :: Processor where
  "ex_processor =
     \<lparr>config = ex_config, modfile = ex_gomod,
      blockedModules = [''github.com/evil/pkg'', ''github.com/bad/lib''], result = []\<rparr>"

text \<open>The same project with every direct dependency allowed by a domain.\<close>

definition ex_config_open :: Configuration where
  "ex_config_open =
     \<lparr>Allow = \<lparr>Allow_Modules = [], Allow_Domains = [''github.com/'']\<rparr>, Replacements = []\<rparr>"

definition ex_processor_open :: Processor where
  "ex_processor_open =
     \<lparr>config = ex_config_open, modfile = ex_gomod, blockedModules = [], result = []\<rparr>"

text \<open>
  The file \<open>raw.go\<close> imports the blocked module \<open>github.com/evil/pkg\<close> with a raw
  string literal, \<open>import `github.com/evil/pkg`\<close>, which Go allows for an import path;
  \<open>Path.Value\<close> holds the literal as it is written. \<open>ex_import_quoted\<close> is the same
  import written with double quotes.
\<close>

definition ex_import_raw :: ast_ImportSpec where
  "ex_import_raw =
     \<lparr>Path_Value = ''`github.com/evil/pkg`'',
      Pos = \<lparr>Filename = ''raw.go'', Offset = 18, Line = 3, Column = 8\<rparr>\<rparr>"

definition ex_import_quoted :: ast_ImportSpec where
  "ex_import_quoted =
     \<lparr>Path_Value = [CHR 0x22] @ ''github.com/evil/pkg'' @ [CHR 0x22],
      Pos = \<lparr>Filename = ''raw.go'', Offset = 18, Line = 3, Column = 8\<rparr>\<rparr>"

definition ex_stdlib_raw :: stdlib where
  "ex_stdlib_raw =
     ex_stdlib
       \<lparr>ioutil_ReadFile := (\<lambda>name.
          if name = ''raw.go'' then (''package r'', None) else ioutil_ReadFile ex_stdlib name),
        parser_ParseFile := (\<lambda>name data.
          if data = ''package r'' then Inr [ex_import_raw]
          else parser_ParseFile ex_stdlib name data)\<rparr>"

section \<open>The loops, characterised\<close>

lemma HasPrefix_iff_append: "HasPrefix s pre \<longleftrightarrow> (\<exists>rest. s = pre @ rest)"
proof
  assume "HasPrefix s pre"
  then have "take (length pre) s = pre" by (simp add: HasPrefix_def)
  then have "s = pre @ drop (length pre) s" by (metis append_take_drop_id)
  then show "\<exists>rest. s = pre @ rest" ..
next
  assume "\<exists>rest. s = pre @ rest"
  then show "HasPrefix s pre" by (auto simp: HasPrefix_def)
qed

lemma HasReplacement_loop_iff:
  "HasReplacement_loop X ms pkg \<longleftrightarrow> (\<exists>m\<in>set ms. HasPrefix (ToLower X pkg) (ToLower X m))"
  by (induction ms) auto

lemma isAllowedModuleDomain_loop_iff:
  "isAllowedModuleDomain_loop X ds module \<longleftrightarrow>
     (\<exists>d\<in>set ds. HasPrefix (ToLower X module) (ToLower X d))"
  by (induction ds) auto

lemma isAllowedModule_loop_iff:
  "isAllowedModule_loop X ms module \<longleftrightarrow> (\<exists>m\<in>set ms. EqualFold X module m)"
  by (induction ms) auto

lemma isBlockedPackage_loop_iff:
  "isBlockedPackage_loop X bs pkg \<longleftrightarrow> (\<exists>b\<in>set bs. HasPrefix (ToLower X pkg) (ToLower X b))"
  by (induction bs) auto

lemma setBlockedModules_loop_filter:
  "setBlockedModules_loop X p require blocked =
     blocked @ map Mod_Path
       (filter (\<lambda>r. \<not> Indirect r \<and> \<not> isAllowedModuleDomain X p (Mod_Path r) \<and>
                     \<not> isAllowedModule X p (Mod_Path r)) require)"
  by (induction require arbitrary: blocked) auto

lemma Get_Some_index:
  "Get X rs pkg = Some r \<longleftrightarrow>
     (\<exists>i<length rs. rs ! i = r \<and> HasReplacement X r pkg \<and>
        (\<forall>j<i. \<not> HasReplacement X (rs ! j) pkg))"
proof (induction rs)
  case Nil
  show ?case by simp
next
  case (Cons a rs)
  show ?case
  proof (cases "HasReplacement X a pkg")
    case True
    have "(\<exists>i<length (a # rs). (a # rs) ! i = r \<and> HasReplacement X r pkg \<and>
        (\<forall>j<i. \<not> HasReplacement X ((a # rs) ! j) pkg)) \<longleftrightarrow> a = r"
    proof
      assume "\<exists>i<length (a # rs). (a # rs) ! i = r \<and> HasReplacement X r pkg \<and>
        (\<forall>j<i. \<not> HasReplacement X ((a # rs) ! j) pkg)"
      then obtain i where i: "(a # rs) ! i = r" "\<forall>j<i. \<not> HasReplacement X ((a # rs) ! j) pkg"
        by blast
      have "i = 0"
      proof (rule ccontr)
        assume "i \<noteq> 0"
        then have "0 < i" by simp
        with i(2) have "\<not> HasReplacement X ((a # rs) ! 0) pkg" by blast
        with True show False by simp
      qed
      with i(1) show "a = r" by simp
    next
      assume "a = r"
      with True show "\<exists>i<length (a # rs). (a # rs) ! i = r \<and> HasReplacement X r pkg \<and>
        (\<forall>j<i. \<not> HasReplacement X ((a # rs) ! j) pkg)"
        by (intro exI[of _ 0]) simp
    qed
    with True show ?thesis by simp
  next
    case False
    have "(\<exists>i<length (a # rs). (a # rs) ! i = r \<and> HasReplacement X r pkg \<and>
        (\<forall>j<i. \<not> HasReplacement X ((a # rs) ! j) pkg)) \<longleftrightarrow>
       (\<exists>i<length rs. rs ! i = r \<and> HasReplacement X r pkg \<and>
        (\<forall>j<i. \<not> HasReplacement X (rs ! j) pkg))" (is "?L \<longleftrightarrow> ?R")
    proof
      assume ?L
      then obtain i where i: "i < length (a # rs)" "(a # rs) ! i = r" "HasReplacement X r pkg"
        "\<forall>j<i. \<not> HasReplacement X ((a # rs) ! j) pkg" by blast
      from i(2,3) False have "i \<noteq> 0" by (cases i) auto
      then obtain k where k: "i = Suc k" by (cases i) auto
      have "\<forall>j<k. \<not> HasReplacement X (rs ! j) pkg"
      proof (intro allI impI)
        fix j assume "j < k"
        then have "Suc j < i" using k by simp
        with i(4) have "\<not> HasReplacement X ((a # rs) ! Suc j) pkg" by blast
        then show "\<not> HasReplacement X (rs ! j) pkg" by simp
      qed
      with i k show ?R by (intro exI[of _ k]) simp
    next
      assume ?R
      then obtain k where k: "k < length rs" "rs ! k = r" "HasReplacement X r pkg"
        "\<forall>j<k. \<not> HasReplacement X (rs ! j) pkg" by blast
      have "\<forall>j<Suc k. \<not> HasReplacement X ((a # rs) ! j) pkg"
      proof (intro allI impI)
        fix j assume j: "j < Suc k"
        show "\<not> HasReplacement X ((a # rs) ! j) pkg"
        proof (cases j)
          case 0 with False show ?thesis by simp
        next
          case (Suc j') with j k(4) show ?thesis by simp
        qed
      qed
      with k show ?L by (intro exI[of _ "Suc k"]) simp
    qed
    with False Cons.IH show ?thesis by simp
  qed
qed

lemma Get_None_iff: "Get X rs pkg = None \<longleftrightarrow> (\<forall>r\<in>set rs. \<not> HasReplacement X r pkg)"
  by (induction rs) auto

lemma isBlockedPackage_result [simp]:
  "isBlockedPackage X (p\<lparr>result := rs\<rparr>) pkg = isBlockedPackage X p pkg"
  by (simp add: isBlockedPackage_def)

lemma process_loop_single:
  "process_loop X [imp] p = p\<lparr>result := result p @ importResults X p imp\<rparr>"
  by (simp add: importResults_def addError_def Let_def split: option.splits)

lemma importResults_result [simp]:
  "importResults X (p\<lparr>result := rs\<rparr>) = importResults X p"
  by (rule ext) (simp add: importResults_def)

lemma process_loop_Cons:
  "process_loop X (imp # imports) p = process_loop X imports (process_loop X [imp] p)"
  by (simp add: Let_def)

lemma process_loop_concat:
  "process_loop X imps p = p\<lparr>result := result p @ concat (map (importResults X p) imps)\<rparr>"
proof (induction imps arbitrary: p)
  case Nil
  show ?case by simp
next
  case (Cons imp imps)
  have "process_loop X (imp # imps) p =
          process_loop X imps (p\<lparr>result := result p @ importResults X p imp\<rparr>)"
    by (simp only: process_loop_Cons [of X imp imps p] process_loop_single)
  also have "\<dots> = p\<lparr>result := result p @ concat (map (importResults X p) (imp # imps))\<rparr>"
    by (simp add: Cons.IH)
  finally show ?case .
qed

lemma ProcessFiles_loop_single:
  "ProcessFiles_loop X [filename] (p, io) =
     (p\<lparr>result := result p @ fileResults X p filename\<rparr>, io @ fileEvents X p filename)"
proof -
  obtain data err where r: "ioutil_ReadFile X filename = (data, err)"
    by (cases "ioutil_ReadFile X filename")
  show ?thesis
  proof (cases err)
    case None
    with r show ?thesis
      by (simp add: fileResults_def fileEvents_def process_def process_loop_concat Let_def
               split: sum.splits)
  next
    case (Some e)
    with r show ?thesis
      by (simp add: fileResults_def fileEvents_def process_def process_loop_concat Let_def
               split: sum.splits)
  qed
qed

lemma fileResults_result [simp]: "fileResults X (p\<lparr>result := rs\<rparr>) = fileResults X p"
  by (rule ext) (simp add: fileResults_def)

lemma fileEvents_result [simp]: "fileEvents X (p\<lparr>result := rs\<rparr>) = fileEvents X p"
  by (rule ext) (simp add: fileEvents_def)

lemma ProcessFiles_loop_Cons:
  "ProcessFiles_loop X (f # fs) st = ProcessFiles_loop X fs (ProcessFiles_loop X [f] st)"
  by (cases st) (simp split: prod.splits)

lemma ProcessFiles_loop_concat:
  "ProcessFiles_loop X fs (p, io) =
     (p\<lparr>result := result p @ concat (map (fileResults X p) fs)\<rparr>,
      io @ concat (map (fileEvents X p) fs))"
proof (induction fs arbitrary: p io)
  case Nil
  show ?case by simp
next
  case (Cons f fs)
  have "ProcessFiles_loop X (f # fs) (p, io) =
          ProcessFiles_loop X fs
            (p\<lparr>result := result p @ fileResults X p f\<rparr>, io @ fileEvents X p f)"
    by (simp only: ProcessFiles_loop_Cons [of X f fs "(p, io)"] ProcessFiles_loop_single)
  also have "\<dots> = (p\<lparr>result := result p @ concat (map (fileResults X p) (f # fs))\<rparr>,
                    io @ concat (map (fileEvents X p) (f # fs)))"
    by (simp add: Cons.IH)
  finally show ?case .
qed

lemma fileEvents_eq:
  "fileEvents X p f = [ReadFile f, ParseFile f (fst (ioutil_ReadFile X f))]"
  by (cases "ioutil_ReadFile X f")
     (simp add: fileEvents_def process_def Let_def split: sum.splits option.splits)

lemma setBlockedModules_result [simp]: "result (setBlockedModules X p) = result p"
  by (simp add: setBlockedModules_def)

lemma NewProcessor_result: "NewProcessor X cfg io = (Inr p, io') \<Longrightarrow> result p = []"
  by (auto simp: NewProcessor_def split: prod.splits option.splits sum.splits)

lemma ProcessFiles_empty_blocked:
  "blockedModules p = [] \<Longrightarrow> ProcessFiles X fs (p, io) = (result p, (p, io))"
  by (simp add: ProcessFiles_def)

lemma ProcessFiles_blocked:
  "blockedModules p \<noteq> [] \<Longrightarrow>
   ProcessFiles X fs (p, io) =
     (result p @ concat (map (fileResults X p) fs),
      (p\<lparr>result := result p @ concat (map (fileResults X p) fs)\<rparr>,
       io @ concat (map (fileEvents X p) fs)))"
  by (simp add: ProcessFiles_def ProcessFiles_loop_concat)

lemma ProcessFiles_frame:
  "ProcessFiles X fs (p, io) = (rs, (p', io')) \<Longrightarrow> p' = p\<lparr>result := rs\<rparr>"
  by (cases "blockedModules p = []")
     (auto simp: ProcessFiles_empty_blocked ProcessFiles_blocked)

lemma reachable_empty_blocked:
  "reachable p \<Longrightarrow> blockedModules p = [] \<Longrightarrow> result p = []"
proof (induction rule: reachable.induct)
  case (new X cfg io p io')
  then show ?case by (simp add: NewProcessor_result)
next
  case (scan p X filenames io rs p' io')
  from scan.hyps(2) have p': "p' = p\<lparr>result := rs\<rparr>" by (rule ProcessFiles_frame)
  with scan.prems have b: "blockedModules p = []" by simp
  with scan.IH have "result p = []" by simp
  with b scan.hyps(2) have "rs = []" by (simp add: ProcessFiles_empty_blocked)
  with p' show ?case by simp
qed

lemma importResults_nonempty_iff:
  "importResults X p imp \<noteq> [] \<longleftrightarrow> isBlockedPackage X p (Trim (Path_Value imp) [CHR 0x22])"
  by (simp add: importResults_def addError_def Let_def split: option.splits)

lemma ToLower_ascii: "isASCII s \<Longrightarrow> ToLower X s = map lowerByte s"
  by (simp add: ToLower_def)

lemma importResults_blocked:
  "isBlockedPackage X p (Trim (Path_Value imp) [CHR 0x22]) \<Longrightarrow>
   importResults X p imp =
     [\<lparr>FileName = Filename (Pos imp), LineNumber = Line (Pos imp), Position = Pos imp,
       Result_Reason =
         blockedReason (Trim (Path_Value imp) [CHR 0x22]) @
         (case Get X (Replacements (config p)) (Trim (Path_Value imp) [CHR 0x22]) of
            None \<Rightarrow> []
          | Some r \<Rightarrow> '' '' @ Replacement_String r)\<rparr>]"
  by (simp add: importResults_def addError_def Let_def split: option.splits)

lemma importResults_not_blocked:
  "\<not> isBlockedPackage X p (Trim (Path_Value imp) [CHR 0x22]) \<Longrightarrow> importResults X p imp = []"
  by (simp add: importResults_def)

lemma fileResults_parse_error:
  "ioutil_ReadFile X f = (data, err) \<Longrightarrow> parser_ParseFile X f data = Inl e \<Longrightarrow>
   fileResults X p f =
     (case err of
        None \<Rightarrow> []
      | Some re \<Rightarrow>
          [\<lparr>FileName = f, LineNumber = 0, Position = no_Position,
            Result_Reason = ''unable to read file, file cannot be linted ('' @ re @ '')''\<rparr>]) @
     [\<lparr>FileName = f, LineNumber = 0, Position = no_Position,
       Result_Reason = ''invalid syntax, file cannot be linted ('' @ e @ '')''\<rparr>]"
  by (simp add: fileResults_def process_def Let_def split: option.splits)

lemma fileResults_parsed:
  "ioutil_ReadFile X f = (data, err) \<Longrightarrow> parser_ParseFile X f data = Inr imps \<Longrightarrow>
   fileResults X p f =
     (case err of
        None \<Rightarrow> []
      | Some re \<Rightarrow>
          [\<lparr>FileName = f, LineNumber = 0, Position = no_Position,
            Result_Reason = ''unable to read file, file cannot be linted ('' @ re @ '')''\<rparr>]) @
     concat (map (importResults X p) imps)"
  by (simp add: fileResults_def process_def process_loop_concat Let_def split: option.splits)

lemma importResults_at_most_one:
  "importResults X p imp = [] \<or>
   (\<exists>reason. importResults X p imp =
      [\<lparr>FileName = Filename (Pos imp), LineNumber = Line (Pos imp), Position = Pos imp,
        Result_Reason = reason\<rparr>])"
  by (cases "isBlockedPackage X p (Trim (Path_Value imp) [CHR 0x22])")
     (simp_all add: importResults_blocked importResults_not_blocked)

section \<open>The properties of the specification\<close>

text \<open>
  Claim C7. \<open>Get\<close> returns the first rule of the table, in table order, that has a
  module whose lower-case form is a prefix of the lower-case package path: the rule at
  an index \<open>i\<close> such that no rule at a smaller index matches. It returns \<open>nil\<close>
  exactly when no rule of the table matches.
\<close>

theorem Get_first_match:
  "(Get X rs pkg = Some r \<longleftrightarrow>
      (\<exists>i<length rs. rs ! i = r \<and> HasReplacement X r pkg \<and>
         (\<forall>j<i. \<not> HasReplacement X (rs ! j) pkg))) \<and>
   (Get X rs pkg = None \<longleftrightarrow> (\<forall>r'\<in>set rs. \<not> HasReplacement X r' pkg)) \<and>
   (HasReplacement X r pkg \<longleftrightarrow>
      (\<exists>m\<in>set (Modules r). \<exists>rest. ToLower X pkg = ToLower X m @ rest))"
proof (intro conjI)
  show "Get X rs pkg = Some r \<longleftrightarrow>
      (\<exists>i<length rs. rs ! i = r \<and> HasReplacement X r pkg \<and>
         (\<forall>j<i. \<not> HasReplacement X (rs ! j) pkg))"
    by (rule Get_Some_index)
  show "Get X rs pkg = None \<longleftrightarrow> (\<forall>r'\<in>set rs. \<not> HasReplacement X r' pkg)"
    by (rule Get_None_iff)
  show "HasReplacement X r pkg \<longleftrightarrow>
      (\<exists>m\<in>set (Modules r). \<exists>rest. ToLower X pkg = ToLower X m @ rest)"
    by (simp add: HasReplacement_def HasReplacement_loop_iff HasPrefix_iff_append)
qed

theorem Get_first_match_witness:
  "HasReplacement ex_stdlib ex_rule1 ''github.com/evil/pkg/sub'' \<and>
   HasReplacement ex_stdlib ex_rule2 ''github.com/evil/pkg/sub'' \<and>
   Get ex_stdlib [ex_rule1, ex_rule2] ''github.com/evil/pkg/sub'' = Some ex_rule1 \<and>
   Get ex_stdlib [ex_rule2, ex_rule1] ''github.com/evil/pkg/sub'' = Some ex_rule2 \<and>
   Get ex_stdlib [ex_rule1, ex_rule2] ''github.com/bad/lib'' = None"
proof -
  let ?pkg = "''github.com/evil/pkg/sub''"
  have a: "HasReplacement ex_stdlib ex_rule1 ?pkg" by code_simp
  have b: "HasReplacement ex_stdlib ex_rule2 ?pkg" by code_simp
  have c: "\<not> HasReplacement ex_stdlib ex_rule1 ''github.com/bad/lib''" by code_simp
  have d: "\<not> HasReplacement ex_stdlib ex_rule2 ''github.com/bad/lib''" by code_simp
  have "\<exists>i<length [ex_rule1, ex_rule2]. [ex_rule1, ex_rule2] ! i = ex_rule1 \<and>
          HasReplacement ex_stdlib ex_rule1 ?pkg \<and>
          (\<forall>j<i. \<not> HasReplacement ex_stdlib ([ex_rule1, ex_rule2] ! j) ?pkg)"
    using a by (intro exI[of _ 0]) simp
  then have e: "Get ex_stdlib [ex_rule1, ex_rule2] ?pkg = Some ex_rule1"
    using Get_first_match [of ex_stdlib "[ex_rule1, ex_rule2]" ?pkg ex_rule1] by blast
  have "\<exists>i<length [ex_rule2, ex_rule1]. [ex_rule2, ex_rule1] ! i = ex_rule2 \<and>
          HasReplacement ex_stdlib ex_rule2 ?pkg \<and>
          (\<forall>j<i. \<not> HasReplacement ex_stdlib ([ex_rule2, ex_rule1] ! j) ?pkg)"
    using b by (intro exI[of _ 0]) simp
  then have f: "Get ex_stdlib [ex_rule2, ex_rule1] ?pkg = Some ex_rule2"
    using Get_first_match [of ex_stdlib "[ex_rule2, ex_rule1]" ?pkg ex_rule2] by blast
  have "\<forall>r'\<in>set [ex_rule1, ex_rule2]. \<not> HasReplacement ex_stdlib r' ''github.com/bad/lib''"
    using c d by simp
  then have g: "Get ex_stdlib [ex_rule1, ex_rule2] ''github.com/bad/lib'' = None"
    using Get_first_match [of ex_stdlib "[ex_rule1, ex_rule2]" "''github.com/bad/lib''" ex_rule1]
    by blast
  from a b e f g show ?thesis by blast
qed

text \<open>
  Claim C1. The blocked modules that \<open>setBlockedModules\<close> stores are, in the order of
  the requirements of \<open>go.mod\<close>, the paths of the requirements that are not indirect,
  whose lower-case path starts with the lower-case form of no allowed domain, and whose
  path is equal under case folding to no allowed module. Hence every blocked path is the
  path of a direct requirement, and with both allow lists empty every direct requirement
  is blocked. \<open>NewProcessor\<close> stores this list for the configuration it is given.
\<close>

theorem setBlockedModules_blocked_set:
  "blockedModules (setBlockedModules X p) =
     map Mod_Path
       (filter (\<lambda>r. \<not> Indirect r \<and>
                  (\<forall>d\<in>set (Allow_Domains (Allow (config p))).
                     \<not> HasPrefix (ToLower X (Mod_Path r)) (ToLower X d)) \<and>
                  (\<forall>m\<in>set (Allow_Modules (Allow (config p))).
                     \<not> EqualFold X (Mod_Path r) m))
          (Require (modfile p))) \<and>
   (\<forall>path\<in>set (blockedModules (setBlockedModules X p)).
      \<exists>r\<in>set (Require (modfile p)). \<not> Indirect r \<and> Mod_Path r = path) \<and>
   (Allow_Modules (Allow (config p)) = [] \<and> Allow_Domains (Allow (config p)) = [] \<longrightarrow>
      blockedModules (setBlockedModules X p) =
        map Mod_Path (filter (\<lambda>r. \<not> Indirect r) (Require (modfile p)))) \<and>
   (NewProcessor X cfg io = (Inr q, io') \<longrightarrow>
      config q = cfg \<and> result q = [] \<and>
      modfile_Parse X goModFile (fst (ioutil_ReadFile X goModFile)) = Inr (modfile q) \<and>
      blockedModules q = blockedModules (setBlockedModules X q))"
proof (intro conjI)
  show 1: "blockedModules (setBlockedModules X p) =
     map Mod_Path
       (filter (\<lambda>r. \<not> Indirect r \<and>
                  (\<forall>d\<in>set (Allow_Domains (Allow (config p))).
                     \<not> HasPrefix (ToLower X (Mod_Path r)) (ToLower X d)) \<and>
                  (\<forall>m\<in>set (Allow_Modules (Allow (config p))).
                     \<not> EqualFold X (Mod_Path r) m))
          (Require (modfile p)))"
    by (simp add: setBlockedModules_def setBlockedModules_loop_filter
          isAllowedModuleDomain_def isAllowedModule_def
          isAllowedModuleDomain_loop_iff isAllowedModule_loop_iff)
  show "\<forall>path\<in>set (blockedModules (setBlockedModules X p)).
      \<exists>r\<in>set (Require (modfile p)). \<not> Indirect r \<and> Mod_Path r = path"
    by (auto simp: setBlockedModules_def setBlockedModules_loop_filter)
  show "Allow_Modules (Allow (config p)) = [] \<and> Allow_Domains (Allow (config p)) = [] \<longrightarrow>
      blockedModules (setBlockedModules X p) =
        map Mod_Path (filter (\<lambda>r. \<not> Indirect r) (Require (modfile p)))"
    by (simp add: 1)
  show "NewProcessor X cfg io = (Inr q, io') \<longrightarrow>
      config q = cfg \<and> result q = [] \<and>
      modfile_Parse X goModFile (fst (ioutil_ReadFile X goModFile)) = Inr (modfile q) \<and>
      blockedModules q = blockedModules (setBlockedModules X q)"
    by (auto simp: NewProcessor_def setBlockedModules_def setBlockedModules_loop_filter
          isAllowedModuleDomain_def isAllowedModule_def
          split: prod.splits option.splits sum.splits)
qed

theorem setBlockedModules_blocked_set_witness:
  "NewProcessor ex_stdlib ex_config [] =
     (Inr ex_processor, [ReadFile ''go.mod'', ParseModfile ''go.mod'' ''module example'']) \<and>
   blockedModules ex_processor = [''github.com/evil/pkg'', ''github.com/bad/lib''] \<and>
   blockedModules (setBlockedModules ex_stdlib ex_processor) =
     [''github.com/evil/pkg'', ''github.com/bad/lib''] \<and>
   blockedModules (setBlockedModules ex_stdlib (ex_processor\<lparr>config := ex_config\<lparr>Allow := \<lparr>Allow_Modules = [], Allow_Domains = []\<rparr>\<rparr>\<rparr>)) =
     [''github.com/evil/pkg'', ''github.com/OK/pkg'', ''github.com/Exact/Module'', ''github.com/bad/lib'']"
proof -
  let ?io = "[ReadFile ''go.mod'', ParseModfile ''go.mod'' ''module example'']"
  let ?open = "ex_processor\<lparr>config := ex_config\<lparr>Allow := \<lparr>Allow_Modules = [], Allow_Domains = []\<rparr>\<rparr>\<rparr>"
  have n: "NewProcessor ex_stdlib ex_config [] = (Inr ex_processor, ?io)" by code_simp
  have f: "map Mod_Path
       (filter (\<lambda>r. \<not> Indirect r \<and>
                  (\<forall>d\<in>set (Allow_Domains (Allow (config ex_processor))).
                     \<not> HasPrefix (ToLower ex_stdlib (Mod_Path r)) (ToLower ex_stdlib d)) \<and>
                  (\<forall>m\<in>set (Allow_Modules (Allow (config ex_processor))).
                     \<not> EqualFold ex_stdlib (Mod_Path r) m))
          (Require (modfile ex_processor))) = [''github.com/evil/pkg'', ''github.com/bad/lib'']"
    by code_simp
  have e: "Allow_Modules (Allow (config ?open)) = [] \<and> Allow_Domains (Allow (config ?open)) = []"
    by simp
  have g: "map Mod_Path (filter (\<lambda>r. \<not> Indirect r) (Require (modfile ?open))) =
    [''github.com/evil/pkg'', ''github.com/OK/pkg'', ''github.com/Exact/Module'', ''github.com/bad/lib'']"
    by code_simp
  have b: "blockedModules ex_processor = [''github.com/evil/pkg'', ''github.com/bad/lib'']"
    using n setBlockedModules_blocked_set [of ex_stdlib ex_processor ex_config "[]" ex_processor ?io] f
    by simp
  have c: "blockedModules (setBlockedModules ex_stdlib ex_processor) =
     [''github.com/evil/pkg'', ''github.com/bad/lib'']"
    using setBlockedModules_blocked_set [of ex_stdlib ex_processor ex_config "[]" ex_processor ?io] f
    by simp
  have d: "blockedModules (setBlockedModules ex_stdlib ?open) =
     [''github.com/evil/pkg'', ''github.com/OK/pkg'', ''github.com/Exact/Module'', ''github.com/bad/lib'']"
  proof -
    have "Allow_Modules (Allow (config ?open)) = [] \<and> Allow_Domains (Allow (config ?open)) = [] \<longrightarrow>
      blockedModules (setBlockedModules ex_stdlib ?open) =
        map Mod_Path (filter (\<lambda>r. \<not> Indirect r) (Require (modfile ?open)))"
      using setBlockedModules_blocked_set [of ex_stdlib ?open ex_config "[]" ex_processor ?io]
      by blast
    with e have "blockedModules (setBlockedModules ex_stdlib ?open) =
        map Mod_Path (filter (\<lambda>r. \<not> Indirect r) (Require (modfile ?open)))"
      by blast
    with g show ?thesis by (simp only:)
  qed
  from n b c d show ?thesis by blast
qed

text \<open>
  The matching of \<open>isBlockedPackage\<close>. The string it is given is blocked exactly when its
  lower-case form begins with the lower-case form of a whole blocked entry; nothing looks
  at path segments. So the entry \<open>github.com/evil/pkg\<close> matches
  \<open>github.com/evil/pkg/sub\<close> and, equally, \<open>github.com/evil/pkgextra\<close>, in any mix of
  upper and lower case. The string that \<open>process\<close> gives it for an import is the literal
  \<open>Path.Value\<close> without its leading and trailing double quotes.
\<close>

theorem isBlockedPackage_prefix:
  "(isBlockedPackage X p pkg \<longleftrightarrow>
      (\<exists>b\<in>set (blockedModules p). \<exists>rest. ToLower X pkg = ToLower X b @ rest)) \<and>
   (importResults X p imp \<noteq> [] \<longleftrightarrow>
      (\<exists>b\<in>set (blockedModules p).
         \<exists>rest. ToLower X (Trim (Path_Value imp) [CHR 0x22]) = ToLower X b @ rest)) \<and>
   isBlockedPackage X (p\<lparr>blockedModules := [''github.com/evil/pkg'']\<rparr>) ''github.com/evil/pkg/sub'' \<and>
   isBlockedPackage X (p\<lparr>blockedModules := [''github.com/evil/pkg'']\<rparr>) ''github.com/evil/pkgextra'' \<and>
   isBlockedPackage X (p\<lparr>blockedModules := [''github.com/evil/pkg'']\<rparr>) ''GitHub.com/Evil/PKGextra''"
proof -
  have gen: "\<And>q. isBlockedPackage X p q \<longleftrightarrow>
      (\<exists>b\<in>set (blockedModules p). \<exists>rest. ToLower X q = ToLower X b @ rest)"
    by (simp add: isBlockedPackage_def isBlockedPackage_loop_iff HasPrefix_iff_append)
  have b: "ToLower X ''github.com/evil/pkg'' = ''github.com/evil/pkg''"
  proof -
    have "isASCII ''github.com/evil/pkg''" by code_simp
    moreover have "map lowerByte ''github.com/evil/pkg'' = ''github.com/evil/pkg''" by code_simp
    ultimately show ?thesis by (simp only: ToLower_ascii)
  qed
  have s: "ToLower X ''github.com/evil/pkg/sub'' = ''github.com/evil/pkg/sub''"
  proof -
    have "isASCII ''github.com/evil/pkg/sub''" by code_simp
    moreover have "map lowerByte ''github.com/evil/pkg/sub'' = ''github.com/evil/pkg/sub''"
      by code_simp
    ultimately show ?thesis by (simp only: ToLower_ascii)
  qed
  have e: "ToLower X ''github.com/evil/pkgextra'' = ''github.com/evil/pkgextra''"
  proof -
    have "isASCII ''github.com/evil/pkgextra''" by code_simp
    moreover have "map lowerByte ''github.com/evil/pkgextra'' = ''github.com/evil/pkgextra''"
      by code_simp
    ultimately show ?thesis by (simp only: ToLower_ascii)
  qed
  have u: "ToLower X ''GitHub.com/Evil/PKGextra'' = ''github.com/evil/pkgextra''"
  proof -
    have "isASCII ''GitHub.com/Evil/PKGextra''" by code_simp
    moreover have "map lowerByte ''GitHub.com/Evil/PKGextra'' = ''github.com/evil/pkgextra''"
      by code_simp
    ultimately show ?thesis by (simp only: ToLower_ascii)
  qed
  show ?thesis
  proof (intro conjI)
    show "isBlockedPackage X p pkg \<longleftrightarrow>
      (\<exists>b\<in>set (blockedModules p). \<exists>rest. ToLower X pkg = ToLower X b @ rest)"
      by (rule gen)
    show "importResults X p imp \<noteq> [] \<longleftrightarrow>
      (\<exists>b\<in>set (blockedModules p).
         \<exists>rest. ToLower X (Trim (Path_Value imp) [CHR 0x22]) = ToLower X b @ rest)"
      by (simp only: importResults_nonempty_iff gen)
    show "isBlockedPackage X (p\<lparr>blockedModules := [''github.com/evil/pkg'']\<rparr>)
            ''github.com/evil/pkg/sub''"
      by (simp add: isBlockedPackage_def b s HasPrefix_def)
    show "isBlockedPackage X (p\<lparr>blockedModules := [''github.com/evil/pkg'']\<rparr>)
            ''github.com/evil/pkgextra''"
      by (simp add: isBlockedPackage_def b e HasPrefix_def)
    show "isBlockedPackage X (p\<lparr>blockedModules := [''github.com/evil/pkg'']\<rparr>)
            ''GitHub.com/Evil/PKGextra''"
      by (simp add: isBlockedPackage_def b u HasPrefix_def)
  qed
qed

theorem isBlockedPackage_prefix_witness:
  "isBlockedPackage ex_stdlib ex_processor ''github.com/evil/pkg/sub'' \<and>
   isBlockedPackage ex_stdlib ex_processor ''github.com/evil/pkgextra'' \<and>
   \<not> isBlockedPackage ex_stdlib ex_processor ''github.com/evil/pk'' \<and>
   \<not> isBlockedPackage ex_stdlib ex_processor ''github.com/OK/pkg'' \<and>
   importResults ex_stdlib ex_processor (ex_imports ! 1) \<noteq> [] \<and>
   importResults ex_stdlib ex_processor (ex_imports ! 0) = []"
proof -
  note T = isBlockedPackage_prefix [of ex_stdlib ex_processor _ "ex_imports ! 1"]
  have b: "blockedModules ex_processor = [''github.com/evil/pkg'', ''github.com/bad/lib'']"
    by (simp add: ex_processor_def)
  have 1: "ToLower ex_stdlib ''github.com/evil/pkg/sub'' =
             ToLower ex_stdlib ''github.com/evil/pkg'' @ ''/sub''" by code_simp
  have 2: "ToLower ex_stdlib ''github.com/evil/pkgextra'' =
             ToLower ex_stdlib ''github.com/evil/pkg'' @ ''extra''" by code_simp
  have t: "Trim (Path_Value (ex_imports ! 1)) [CHR 0x22] = ''github.com/evil/pkg/sub''"
    by code_simp
  have a: "isBlockedPackage ex_stdlib ex_processor ''github.com/evil/pkg/sub''"
    using T [of "''github.com/evil/pkg/sub''"] b 1 by auto
  have c: "isBlockedPackage ex_stdlib ex_processor ''github.com/evil/pkgextra''"
    using T [of "''github.com/evil/pkgextra''"] b 2 by auto
  have d: "importResults ex_stdlib ex_processor (ex_imports ! 1) \<noteq> []"
    using T [of "''github.com/evil/pkg/sub''"] b 1 t by auto
  have e: "\<not> isBlockedPackage ex_stdlib ex_processor ''github.com/evil/pk''" by code_simp
  have f: "\<not> isBlockedPackage ex_stdlib ex_processor ''github.com/OK/pkg''" by code_simp
  have g: "importResults ex_stdlib ex_processor (ex_imports ! 0) = []" by code_simp
  from a c d e f g show ?thesis by blast
qed

text \<open>
  Claim C2. The claim holds of \<open>isBlockedPackage\<close>, but not of the scanner for every
  import: \<open>process\<close> removes only double quotes from the literal, so for the import
  \<open>`github.com/evil/pkg`\<close>, written as a raw string, the string tested is the path still
  between its backquotes. Its lower-case form begins with no blocked entry, and the
  import of the blocked module \<open>github.com/evil/pkg\<close> is not flagged: the scan of
  \<open>raw.go\<close> reads and parses the file and returns no diagnostic, where the same import
  written with double quotes is flagged.
\<close>

theorem raw_literal_import_not_flagged:
  "blockedModules ex_processor = [''github.com/evil/pkg'', ''github.com/bad/lib''] \<and>
   ioutil_ReadFile ex_stdlib_raw ''raw.go'' = (''package r'', None) \<and>
   parser_ParseFile ex_stdlib_raw ''raw.go'' ''package r'' = Inr [ex_import_raw] \<and>
   Trim (Path_Value ex_import_raw) [CHR 0x22] = ''`github.com/evil/pkg`'' \<and>
   \<not> isBlockedPackage ex_stdlib_raw ex_processor (Trim (Path_Value ex_import_raw) [CHR 0x22]) \<and>
   importResults ex_stdlib_raw ex_processor ex_import_raw = [] \<and>
   ProcessFiles ex_stdlib_raw [''raw.go''] (ex_processor, []) =
     ([], (ex_processor, [ReadFile ''raw.go'', ParseFile ''raw.go'' ''package r''])) \<and>
   Trim (Path_Value ex_import_quoted) [CHR 0x22] = ''github.com/evil/pkg'' \<and>
   isBlockedPackage ex_stdlib_raw ex_processor ''github.com/evil/pkg'' \<and>
   map LineNumber (importResults ex_stdlib_raw ex_processor ex_import_quoted) = [3]"
  by code_simp

text \<open>
  Claim C3. With no blocked module, \<open>ProcessFiles\<close> returns an empty result for every list
  of files, and makes no outside call: the record of reads and parses is the one it was
  given. This holds for the processor that \<open>NewProcessor\<close> returns and after any number of
  scans on it.
\<close>

theorem ProcessFiles_nothing_blocked:
  "reachable p \<Longrightarrow> blockedModules p = [] \<Longrightarrow>
     ProcessFiles X filenames (p, io) = ([], (p, io))"
  by (simp add: ProcessFiles_empty_blocked reachable_empty_blocked)

theorem ProcessFiles_nothing_blocked_witness:
  "reachable ex_processor_open \<and> blockedModules ex_processor_open = [] \<and>
   ProcessFiles ex_stdlib [''a.go'', ''missing.go'', ''bad.go''] (ex_processor_open, []) =
     ([], (ex_processor_open, [])) \<and>
   ProcessFiles ex_stdlib [''a.go''] (ex_processor, []) \<noteq> ([], (ex_processor, []))"
proof -
  have "NewProcessor ex_stdlib ex_config_open [] =
          (Inr ex_processor_open,
           [ReadFile ''go.mod'', ParseModfile ''go.mod'' ''module example''])"
    by code_simp
  then have r: "reachable ex_processor_open" by (rule reachable.new)
  have b: "blockedModules ex_processor_open = []" by (simp add: ex_processor_open_def)
  have n: "ProcessFiles ex_stdlib [''a.go''] (ex_processor, []) \<noteq> ([], (ex_processor, []))"
    by code_simp
  from r b n ProcessFiles_nothing_blocked [OF r b, of ex_stdlib "[''a.go'', ''missing.go'', ''bad.go'']" "[]"]
  show ?thesis by blast
qed

text \<open>
  Claim C10. A call to \<open>ProcessFiles\<close> changes the \<open>result\<close> field of the processor and
  nothing else: the configuration, the parsed \<open>go.mod\<close> and the blocked modules are the
  same after the call, so a later scan blocks the same packages and suggests the same
  replacements.
\<close>

theorem ProcessFiles_mutates_result_only:
  "ProcessFiles X filenames (p, io) = (rs, (p', io')) \<Longrightarrow>
     config p' = config p \<and> modfile p' = modfile p \<and> blockedModules p' = blockedModules p \<and>
     p' = p\<lparr>result := rs\<rparr> \<and>
     (\<forall>X' pkg. isBlockedPackage X' p' pkg = isBlockedPackage X' p pkg) \<and>
     (\<forall>X' pkg. Get X' (Replacements (config p')) pkg = Get X' (Replacements (config p)) pkg)"
proof -
  assume "ProcessFiles X filenames (p, io) = (rs, (p', io'))"
  then have "p' = p\<lparr>result := rs\<rparr>" by (rule ProcessFiles_frame)
  then show ?thesis by simp
qed

theorem ProcessFiles_mutates_result_only_witness:
  "ProcessFiles ex_stdlib [''a.go''] (ex_processor, []) =
     (fst (ProcessFiles ex_stdlib [''a.go''] (ex_processor, [])),
      (ex_processor\<lparr>result := fst (ProcessFiles ex_stdlib [''a.go''] (ex_processor, []))\<rparr>,
       [ReadFile ''a.go'', ParseFile ''a.go'' ''package a''])) \<and>
   length (fst (ProcessFiles ex_stdlib [''a.go''] (ex_processor, []))) = 2 \<and>
   config (fst (snd (ProcessFiles ex_stdlib [''a.go''] (ex_processor, [])))) = ex_config \<and>
   blockedModules (fst (snd (ProcessFiles ex_stdlib [''a.go''] (ex_processor, [])))) =
     [''github.com/evil/pkg'', ''github.com/bad/lib''] \<and>
   modfile (fst (snd (ProcessFiles ex_stdlib [''a.go''] (ex_processor, [])))) = ex_gomod"
proof -
  let ?r = "ProcessFiles ex_stdlib [''a.go''] (ex_processor, [])"
  have io: "snd (snd ?r) = [ReadFile ''a.go'', ParseFile ''a.go'' ''package a'']" by code_simp
  have len: "length (fst ?r) = 2" by code_simp
  have eq: "?r = (fst ?r, (fst (snd ?r), snd (snd ?r)))" by simp
  note T = ProcessFiles_mutates_result_only [OF eq]
  from T have p': "fst (snd ?r) = ex_processor\<lparr>result := fst ?r\<rparr>" by blast
  from T have c: "config (fst (snd ?r)) = ex_config" by (simp add: ex_processor_def)
  from T have b: "blockedModules (fst (snd ?r)) = [''github.com/evil/pkg'', ''github.com/bad/lib'']"
    by (simp add: ex_processor_def)
  from T have m: "modfile (fst (snd ?r)) = ex_gomod" by (simp add: ex_processor_def)
  have "?r = (fst ?r, (ex_processor\<lparr>result := fst ?r\<rparr>,
       [ReadFile ''a.go'', ParseFile ''a.go'' ''package a'']))"
    using eq p' io by metis
  with len c b m show ?thesis by blast
qed


text \<open>
  Claim C5, as amended. The message of the diagnostic for a blocked import is the text
  of \<open>blockedReason\<close> with the package path, which stands between backquotes (not double
  quotes); the package path is the import literal without its leading and trailing
  double quotes. When \<open>Get\<close> finds a replacement rule, one space and the text
  \<open>`replacement` should be used instead. reason: reason\<close> follow; otherwise nothing
  follows.
\<close>

theorem blocked_import_message:
  "isBlockedPackage X p (Trim (Path_Value imp) [CHR 0x22]) \<Longrightarrow>
   map Result_Reason (importResults X p imp) =
     [''import of package `'' @ Trim (Path_Value imp) [CHR 0x22] @
      ''` is blocked because the module is not in the allowed modules list.'' @
      (case Get X (Replacements (config p)) (Trim (Path_Value imp) [CHR 0x22]) of
         None \<Rightarrow> []
       | Some r \<Rightarrow>
           '' `'' @ Replacement r @ ''` should be used instead. reason: '' @ Reason r)]"
  by (simp add: importResults_blocked blockedReason_def Replacement_String_def
        split: option.splits)

theorem blocked_import_message_witness:
  "isBlockedPackage ex_stdlib ex_processor (Trim (Path_Value (ex_imports ! 1)) [CHR 0x22]) \<and>
   Get ex_stdlib (Replacements (config ex_processor)) ''github.com/evil/pkg/sub'' = Some ex_rule1 \<and>
   map Result_Reason (importResults ex_stdlib ex_processor (ex_imports ! 1)) =
     [''import of package `github.com/evil/pkg/sub` is blocked because the module is not in the allowed modules list. `github.com/good/pkg` should be used instead. reason: unmaintained'']"
proof -
  have b: "isBlockedPackage ex_stdlib ex_processor (Trim (Path_Value (ex_imports ! 1)) [CHR 0x22])"
    by code_simp
  have g: "Get ex_stdlib (Replacements (config ex_processor)) ''github.com/evil/pkg/sub'' =
             Some ex_rule1"
    by code_simp
  have r: "[''import of package `'' @ Trim (Path_Value (ex_imports ! 1)) [CHR 0x22] @
      ''` is blocked because the module is not in the allowed modules list.'' @
      (case Get ex_stdlib (Replacements (config ex_processor))
              (Trim (Path_Value (ex_imports ! 1)) [CHR 0x22]) of
         None \<Rightarrow> []
       | Some r \<Rightarrow>
           '' `'' @ Replacement r @ ''` should be used instead. reason: '' @ Reason r)] =
     [''import of package `github.com/evil/pkg/sub` is blocked because the module is not in the allowed modules list. `github.com/good/pkg` should be used instead. reason: unmaintained'']"
    by code_simp
  from blocked_import_message [OF b] r
  have "map Result_Reason (importResults ex_stdlib ex_processor (ex_imports ! 1)) =
     [''import of package `github.com/evil/pkg/sub` is blocked because the module is not in the allowed modules list. `github.com/good/pkg` should be used instead. reason: unmaintained'']"
    by (simp only:)
  with b g show ?thesis by blast
qed

text \<open>
  Claim C5 as stated fails: for the blocked import \<open>"github.com/bad/lib"\<close>, which no
  replacement rule matches, the message is not the base message with the package path
  between double quotes.
\<close>

theorem blocked_import_message_counterexample:
  "isBlockedPackage ex_stdlib ex_processor (Trim (Path_Value (ex_imports ! 2)) [CHR 0x22]) \<and>
   Trim (Path_Value (ex_imports ! 2)) [CHR 0x22] = ''github.com/bad/lib'' \<and>
   Get ex_stdlib (Replacements (config ex_processor)) ''github.com/bad/lib'' = None \<and>
   map Result_Reason (importResults ex_stdlib ex_processor (ex_imports ! 2)) \<noteq>
     [''import of package '' @ [CHR 0x22] @ ''github.com/bad/lib'' @ [CHR 0x22] @
      '' is blocked because the module is not in the allowed modules list.'']"
  by code_simp

text \<open>
  Claim C6, as amended. The result slice is created empty once, by \<open>NewProcessor\<close>,
  and no scan empties it: \<open>ProcessFiles\<close> returns what the slice held when the call began
  (the diagnostics of the earlier calls on the processor) followed by the diagnostics
  of this call, and leaves the whole in the processor.
\<close>

theorem ProcessFiles_returns_accumulator:
  "(NewProcessor X cfg io0 = (Inr q, io1) \<longrightarrow> result q = []) \<and>
   fst (ProcessFiles X filenames (p, io)) =
     result p @ fst (ProcessFiles X filenames (p\<lparr>result := []\<rparr>, io)) \<and>
   result (fst (snd (ProcessFiles X filenames (p, io)))) = fst (ProcessFiles X filenames (p, io))"
proof (intro conjI)
  show "NewProcessor X cfg io0 = (Inr q, io1) \<longrightarrow> result q = []"
    by (simp add: NewProcessor_result)
  show "fst (ProcessFiles X filenames (p, io)) =
     result p @ fst (ProcessFiles X filenames (p\<lparr>result := []\<rparr>, io))"
  proof (cases "blockedModules p = []")
    case True
    then show ?thesis by (simp add: ProcessFiles_empty_blocked)
  next
    case False
    then show ?thesis by (simp add: ProcessFiles_blocked)
  qed
  show "result (fst (snd (ProcessFiles X filenames (p, io)))) =
          fst (ProcessFiles X filenames (p, io))"
  proof (cases "blockedModules p = []")
    case True
    then show ?thesis by (simp add: ProcessFiles_empty_blocked)
  next
    case False
    then show ?thesis by (simp add: ProcessFiles_blocked)
  qed
qed

theorem ProcessFiles_returns_accumulator_witness:
  "NewProcessor ex_stdlib ex_config [] =
     (Inr ex_processor, [ReadFile ''go.mod'', ParseModfile ''go.mod'' ''module example'']) \<and>
   result ex_processor = [] \<and>
   map LineNumber (fst (ProcessFiles ex_stdlib [''a.go''] (ex_processor, []))) = [5, 6] \<and>
   map LineNumber (fst (ProcessFiles ex_stdlib [''bad.go'']
                     (snd (ProcessFiles ex_stdlib [''a.go''] (ex_processor, []))))) = [5, 6, 0]"
proof -
  let ?io = "[ReadFile ''go.mod'', ParseModfile ''go.mod'' ''module example'']"
  let ?s1 = "snd (ProcessFiles ex_stdlib [''a.go''] (ex_processor, []))"
  have n: "NewProcessor ex_stdlib ex_config [] = (Inr ex_processor, ?io)" by code_simp
  note T0 = ProcessFiles_returns_accumulator
              [of ex_stdlib ex_config "[]" ex_processor ?io "[''a.go'']" ex_processor "[]"]
  from T0 n have e: "result ex_processor = []" by blast
  have a: "map LineNumber (fst (ProcessFiles ex_stdlib [''a.go''] (ex_processor, []))) = [5, 6]"
    by code_simp
  from T0 have r1: "result (fst ?s1) = fst (ProcessFiles ex_stdlib [''a.go''] (ex_processor, []))"
    by blast
  note T1 = ProcessFiles_returns_accumulator
              [of ex_stdlib ex_config "[]" ex_processor ?io "[''bad.go'']" "fst ?s1" "snd ?s1"]
  from T1 have "fst (ProcessFiles ex_stdlib [''bad.go''] ?s1) =
      result (fst ?s1) @
      fst (ProcessFiles ex_stdlib [''bad.go''] ((fst ?s1)\<lparr>result := []\<rparr>, snd ?s1))"
    by simp
  moreover have "map LineNumber
      (fst (ProcessFiles ex_stdlib [''bad.go''] ((fst ?s1)\<lparr>result := []\<rparr>, snd ?s1))) = [0]"
    by code_simp
  ultimately have b: "map LineNumber (fst (ProcessFiles ex_stdlib [''bad.go''] ?s1)) = [5, 6, 0]"
    using r1 a by simp
  from n e a b show ?thesis by blast
qed

text \<open>
  Claim C6 as stated fails: after a scan of \<open>a.go\<close> has found two blocked imports, a
  second scan on the same processor, of \<open>bad.go\<close> alone, returns those two diagnostics
  before its own, which a scan of \<open>bad.go\<close> on the new processor does not.
\<close>

theorem ProcessFiles_fresh_result_counterexample:
  "NewProcessor ex_stdlib ex_config [] =
     (Inr ex_processor, [ReadFile ''go.mod'', ParseModfile ''go.mod'' ''module example'']) \<and>
   map FileName (fst (ProcessFiles ex_stdlib [''bad.go''] (ex_processor, []))) = [''bad.go''] \<and>
   map FileName (fst (ProcessFiles ex_stdlib [''bad.go'']
                   (snd (ProcessFiles ex_stdlib [''a.go''] (ex_processor, []))))) =
     [''a.go'', ''a.go'', ''bad.go''] \<and>
   fst (ProcessFiles ex_stdlib [''bad.go'']
         (snd (ProcessFiles ex_stdlib [''a.go''] (ex_processor, [])))) \<noteq>
     fst (ProcessFiles ex_stdlib [''bad.go''] (ex_processor, []))"
  by code_simp

text \<open>
  Claim C8. When \<open>parser.ParseFile\<close> fails on what was read of a file, the scan appends
  for that file one diagnostic with the file name, line 0 and the message
  \<open>invalid syntax, file cannot be linted (err)\<close> with the parser's error, and no
  diagnostic for an import; if the read had failed as well, the diagnostic of the read
  failure stands before it. The files before and after are read, parsed and reported as
  they are without this file.
\<close>

theorem parse_failure_diagnostic:
  assumes "blockedModules p \<noteq> []"
    and "ioutil_ReadFile X f = (data, err)"
    and "parser_ParseFile X f data = Inl e"
  shows "fst (ProcessFiles X (fs1 @ f # fs2) (p, io)) =
           result p @ concat (map (fileResults X p) fs1) @
           (case err of
              None \<Rightarrow> []
            | Some re \<Rightarrow>
                [\<lparr>FileName = f, LineNumber = 0, Position = no_Position,
                  Result_Reason =
                    ''unable to read file, file cannot be linted ('' @ re @ '')''\<rparr>]) @
           [\<lparr>FileName = f, LineNumber = 0, Position = no_Position,
             Result_Reason = ''invalid syntax, file cannot be linted ('' @ e @ '')''\<rparr>] @
           concat (map (fileResults X p) fs2) \<and>
         snd (snd (ProcessFiles X (fs1 @ f # fs2) (p, io))) =
           io @ concat (map (\<lambda>g. [ReadFile g, ParseFile g (fst (ioutil_ReadFile X g))]) fs1) @
           [ReadFile f, ParseFile f data] @
           concat (map (\<lambda>g. [ReadFile g, ParseFile g (fst (ioutil_ReadFile X g))]) fs2)"
proof -
  have ev: "fileEvents X p = (\<lambda>g. [ReadFile g, ParseFile g (fst (ioutil_ReadFile X g))])"
    by (rule ext) (rule fileEvents_eq)
  from assms(2,3) have fr: "fileResults X p f =
     (case err of
        None \<Rightarrow> []
      | Some re \<Rightarrow>
          [\<lparr>FileName = f, LineNumber = 0, Position = no_Position,
            Result_Reason = ''unable to read file, file cannot be linted ('' @ re @ '')''\<rparr>]) @
     [\<lparr>FileName = f, LineNumber = 0, Position = no_Position,
       Result_Reason = ''invalid syntax, file cannot be linted ('' @ e @ '')''\<rparr>]"
    by (rule fileResults_parse_error)
  from assms(2) have fe: "[ReadFile f, ParseFile f (fst (ioutil_ReadFile X f))] =
      [ReadFile f, ParseFile f data]" by simp
  have 1: "fst (ProcessFiles X (fs1 @ f # fs2) (p, io)) =
      result p @ concat (map (fileResults X p) fs1) @ fileResults X p f @
      concat (map (fileResults X p) fs2)"
    using assms(1) by (simp add: ProcessFiles_blocked)
  have 2: "snd (snd (ProcessFiles X (fs1 @ f # fs2) (p, io))) =
      io @ concat (map (fileEvents X p) fs1) @ fileEvents X p f @
      concat (map (fileEvents X p) fs2)"
    using assms(1) by (simp add: ProcessFiles_blocked)
  show ?thesis
    unfolding 1 2 fr ev fe by simp
qed

theorem parse_failure_diagnostic_witness:
  "blockedModules ex_processor \<noteq> [] \<and>
   ioutil_ReadFile ex_stdlib ''bad.go'' = (''pakage b'', None) \<and>
   parser_ParseFile ex_stdlib ''bad.go'' ''pakage b'' = Inl ''bad.go:1:1: expected package'' \<and>
   fst (ProcessFiles ex_stdlib ([] @ ''bad.go'' # [''a.go'']) (ex_processor, [])) =
     [\<lparr>FileName = ''bad.go'', LineNumber = 0, Position = no_Position,
       Result_Reason =
         ''invalid syntax, file cannot be linted (bad.go:1:1: expected package)''\<rparr>] @
     fileResults ex_stdlib ex_processor ''a.go'' \<and>
   map LineNumber (fileResults ex_stdlib ex_processor ''a.go'') = [5, 6] \<and>
   snd (snd (ProcessFiles ex_stdlib ([] @ ''bad.go'' # [''a.go'']) (ex_processor, []))) =
     [ReadFile ''bad.go'', ParseFile ''bad.go'' ''pakage b'',
      ReadFile ''a.go'', ParseFile ''a.go'' ''package a'']"
proof -
  have b: "blockedModules ex_processor \<noteq> []" by (simp add: ex_processor_def)
  have r: "ioutil_ReadFile ex_stdlib ''bad.go'' = (''pakage b'', None)" by code_simp
  have q: "parser_ParseFile ex_stdlib ''bad.go'' ''pakage b'' =
             Inl ''bad.go:1:1: expected package''" by code_simp
  have a: "fst (ioutil_ReadFile ex_stdlib ''a.go'') = ''package a''" by code_simp
  have e: "result ex_processor = []" by (simp add: ex_processor_def)
  have l: "map LineNumber (fileResults ex_stdlib ex_processor ''a.go'') = [5, 6]" by code_simp
  from parse_failure_diagnostic [OF b r q, of "[]" "[''a.go'']" "[]"] a e
  have "fst (ProcessFiles ex_stdlib ([] @ ''bad.go'' # [''a.go'']) (ex_processor, [])) =
     [\<lparr>FileName = ''bad.go'', LineNumber = 0, Position = no_Position,
       Result_Reason =
         ''invalid syntax, file cannot be linted (bad.go:1:1: expected package)''\<rparr>] @
     fileResults ex_stdlib ex_processor ''a.go'' \<and>
   snd (snd (ProcessFiles ex_stdlib ([] @ ''bad.go'' # [''a.go'']) (ex_processor, []))) =
     [ReadFile ''bad.go'', ParseFile ''bad.go'' ''pakage b'',
      ReadFile ''a.go'', ParseFile ''a.go'' ''package a'']"
    by simp
  with b r q l show ?thesis by blast
qed

text \<open>
  Claim C9. The result of a scan is the result slice as it was, followed by the
  diagnostics of the files in the order of the file names given; the diagnostics of a
  file that parses are those of its imports in the order of \<open>file.Imports\<close> (after the
  diagnostic of a failed read, if the read failed); and an import contributes nothing or
  one diagnostic, at the position of the import.
\<close>

theorem ProcessFiles_results_in_order:
  "fst (ProcessFiles X filenames (p, io)) =
     result p @
     (if blockedModules p = [] then [] else concat (map (fileResults X p) filenames)) \<and>
   (ioutil_ReadFile X f = (data, err) \<and> parser_ParseFile X f data = Inr imps \<longrightarrow>
      fileResults X p f =
        (case err of
           None \<Rightarrow> []
         | Some re \<Rightarrow>
             [\<lparr>FileName = f, LineNumber = 0, Position = no_Position,
               Result_Reason =
                 ''unable to read file, file cannot be linted ('' @ re @ '')''\<rparr>]) @
        concat (map (importResults X p) imps)) \<and>
   (importResults X p imp = [] \<or>
    (\<exists>reason. importResults X p imp =
       [\<lparr>FileName = Filename (Pos imp), LineNumber = Line (Pos imp), Position = Pos imp,
         Result_Reason = reason\<rparr>]))"
proof (intro conjI)
  show "fst (ProcessFiles X filenames (p, io)) =
     result p @
     (if blockedModules p = [] then [] else concat (map (fileResults X p) filenames))"
    by (simp add: ProcessFiles_empty_blocked ProcessFiles_blocked)
  show "ioutil_ReadFile X f = (data, err) \<and> parser_ParseFile X f data = Inr imps \<longrightarrow>
      fileResults X p f =
        (case err of
           None \<Rightarrow> []
         | Some re \<Rightarrow>
             [\<lparr>FileName = f, LineNumber = 0, Position = no_Position,
               Result_Reason =
                 ''unable to read file, file cannot be linted ('' @ re @ '')''\<rparr>]) @
        concat (map (importResults X p) imps)"
    using fileResults_parsed by blast
  show "importResults X p imp = [] \<or>
    (\<exists>reason. importResults X p imp =
       [\<lparr>FileName = Filename (Pos imp), LineNumber = Line (Pos imp), Position = Pos imp,
         Result_Reason = reason\<rparr>])"
    by (rule importResults_at_most_one)
qed

theorem ProcessFiles_results_in_order_witness:
  "ioutil_ReadFile ex_stdlib ''a.go'' = (''package a'', None) \<and>
   parser_ParseFile ex_stdlib ''a.go'' ''package a'' = Inr ex_imports \<and>
   fileResults ex_stdlib ex_processor ''a.go'' =
     concat (map (importResults ex_stdlib ex_processor) ex_imports) \<and>
   map (\<lambda>d. (FileName d, LineNumber d))
     (fst (ProcessFiles ex_stdlib [''a.go'', ''bad.go'', ''a.go''] (ex_processor, []))) =
     [(''a.go'', 5), (''a.go'', 6), (''bad.go'', 0), (''a.go'', 5), (''a.go'', 6)]"
proof -
  note T = ProcessFiles_results_in_order
             [of ex_stdlib "[''a.go'', ''bad.go'', ''a.go'']" ex_processor "[]"
                 "''a.go''" "''package a''" None ex_imports "ex_imports ! 0"]
  have r: "ioutil_ReadFile ex_stdlib ''a.go'' = (''package a'', None)" by code_simp
  have q: "parser_ParseFile ex_stdlib ''a.go'' ''package a'' = Inr ex_imports" by code_simp
  have b: "blockedModules ex_processor \<noteq> []" by (simp add: ex_processor_def)
  have e: "result ex_processor = []" by (simp add: ex_processor_def)
  from T r q have f: "fileResults ex_stdlib ex_processor ''a.go'' =
     concat (map (importResults ex_stdlib ex_processor) ex_imports)"
    by simp
  from T b e have "fst (ProcessFiles ex_stdlib [''a.go'', ''bad.go'', ''a.go''] (ex_processor, [])) =
      concat (map (fileResults ex_stdlib ex_processor) [''a.go'', ''bad.go'', ''a.go''])"
    by simp
  moreover have "map (\<lambda>d. (FileName d, LineNumber d))
      (concat (map (fileResults ex_stdlib ex_processor) [''a.go'', ''bad.go'', ''a.go''])) =
     [(''a.go'', 5), (''a.go'', 6), (''bad.go'', 0), (''a.go'', 5), (''a.go'', 6)]"
    by code_simp
  ultimately have o: "map (\<lambda>d. (FileName d, LineNumber d))
     (fst (ProcessFiles ex_stdlib [''a.go'', ''bad.go'', ''a.go''] (ex_processor, []))) =
     [(''a.go'', 5), (''a.go'', 6), (''bad.go'', 0), (''a.go'', 5), (''a.go'', 6)]"
    by (simp only:)
  from r q f o show ?thesis by blast
qed

text \<open>
  Claim C4. The file \<open>missing.go\<close> cannot be opened: \<open>ioutil.ReadFile\<close> returns no data
  and an error. \<open>ProcessFiles\<close> appends the diagnostic of the read failure and, having no
  \<open>continue\<close>, still calls \<open>process\<close> on the file with the empty data; the parser
  rejects the empty source, so a second diagnostic, for invalid syntax, is appended for
  the same file. The next file, \<open>a.go\<close>, is then read, parsed and reported.
\<close>

theorem read_failure_two_diagnostics:
  "blockedModules ex_processor = [''github.com/evil/pkg'', ''github.com/bad/lib''] \<and>
   ioutil_ReadFile ex_stdlib ''missing.go'' =
     ([], Some ''open missing.go: no such file or directory'') \<and>
   parser_ParseFile ex_stdlib ''missing.go'' [] = Inl ''missing.go:1:1: expected package'' \<and>
   fst (ProcessFiles ex_stdlib [''missing.go'', ''a.go''] (ex_processor, [])) =
     [\<lparr>FileName = ''missing.go'', LineNumber = 0, Position = no_Position,
       Result_Reason =
         ''unable to read file, file cannot be linted (open missing.go: no such file or directory)''\<rparr>,
      \<lparr>FileName = ''missing.go'', LineNumber = 0, Position = no_Position,
       Result_Reason =
         ''invalid syntax, file cannot be linted (missing.go:1:1: expected package)''\<rparr>] @
     fileResults ex_stdlib ex_processor ''a.go'' \<and>
   map (\<lambda>d. (FileName d, LineNumber d)) (fileResults ex_stdlib ex_processor ''a.go'') =
     [(''a.go'', 5), (''a.go'', 6)] \<and>
   snd (snd (ProcessFiles ex_stdlib [''missing.go'', ''a.go''] (ex_processor, []))) =
     [ReadFile ''missing.go'', ParseFile ''missing.go'' [],
      ReadFile ''a.go'', ParseFile ''a.go'' ''package a'']"
  by code_simp

end
